theory Spec2Isabelle
  imports Main
begin

section \<open>Data model\<close>

text \<open>
  The three Sequelize models of the booking system and the tables that hold them.

  \<^item> An event row has a name, \<open>totalTickets\<close> and \<open>availableTickets\<close>; the table is keyed
    by the primary key \<open>id\<close> (a UUID string), so it is a map from ids to rows.
  \<^item> A booking row has \<open>eventId\<close>, \<open>userId\<close>, a status out of
    \<open>confirmed | waiting | cancelled\<close> and a nullable \<open>position\<close>. The bookings table has no
    unique index, so it is a list of rows in insertion order; a row is identified by its
    index in the list (the role of the UUID primary key in \<open>booking.update\<close>).
  \<^item> A waiting-list row has \<open>eventId\<close>, \<open>userId\<close>, \<open>position\<close> and a status out of
    \<open>waiting | assigned\<close>; the table is a list in insertion order and carries the unique
    index on \<open>(eventId, position)\<close> of the model and of the migration.

  Ids are strings; the empty string stands for every falsy argument (\<open>null\<close>,
  \<open>undefined\<close>, \<open>""\<close>) that the guards \<open>!eventId\<close> and \<open>!userId\<close> reject. Event ids
  are opaque: the short ids of the examples (\<open>e1\<close>) stand for UUIDs.
  Integers are unbounded: the columns are SQL integers, and no claim depends on their range.
  The timestamps of the rows (\<open>createdAt\<close>, \<open>updatedAt\<close>, \<open>bookedAt\<close>, \<open>timestamp\<close>) are
  left out: no query of the service reads them.
\<close>

type_synonym eventId = string
type_synonym userId = string

datatype bookingStatus = confirmed | waiting | cancelled

datatype waitingListStatus = wl_waiting | wl_assigned

record Event =
  ev_name :: string
  totalTickets :: int
  availableTickets :: int

record Booking =
  b_eventId :: eventId
  b_userId :: userId
  b_status :: bookingStatus
  b_position :: "int option"

record WaitingList =
  w_eventId :: eventId
  w_userId :: userId
  w_position :: int
  w_status :: waitingListStatus

record db =
  events :: "eventId \<rightharpoonup> Event"
  bookings :: "Booking list"
  waitingLists :: "WaitingList list"

definition emptyDb :: db where
  "emptyDb = \<lparr>events = Map.empty, bookings = [], waitingLists = []\<rparr>"

text \<open>
  Every \<open>throw new Error(message)\<close> of the service, and the two errors the storage layer
  and the runtime raise on its paths, named by kind:
  \<^item> \<open>InvalidArgument\<close>: "Event ID and User ID are required", "Event ID is required",
    "Event name must be a non-empty string", "Total tickets must be a positive integer";
  \<^item> \<open>DuplicateBooking\<close>: "User already has active booking for this event";
  \<^item> \<open>EventNotFound\<close>: "Event not found";
  \<^item> \<open>BookingNotFound\<close>: "No confirmed booking found for this user";
  \<^item> \<open>UniqueConstraintError\<close>: the insert that violates a unique index or a primary key;
  \<^item> \<open>TypeError\<close>: \<open>event.increment\<close> on the \<open>null\<close> that \<open>findByPk\<close> returned.
\<close>

datatype error =
  InvalidArgument
  | DuplicateBooking
  | EventNotFound
  | BookingNotFound
  | UniqueConstraintError
  | TypeError

record CancelResult =
  cancelledBooking :: Booking
  assignedUser :: "Booking option"

record EventStatus =
  st_eventId :: eventId
  st_eventName :: string
  st_totalTickets :: int
  st_availableTickets :: int
  bookedTickets :: nat
  waitingListCount :: nat

section \<open>Storage operations\<close>

text \<open>
  \<open>Model.findOne({where})\<close> with no \<open>order\<close> is \<open>SELECT ... WHERE ... LIMIT 1\<close>. SQL
  leaves the choice among several matching rows to the store; the model takes the first
  matching row in storage order, which is what a scan of the table, or of the index on
  \<open>(eventId, userId)\<close>, yields for rows inserted one after the other (\<open>List.find\<close>).
  \<open>findIndex\<close> gives the index of that row, so that the caller can update that very row.
\<close>

fun findIndex :: "('a \<Rightarrow> bool) \<Rightarrow> 'a list \<Rightarrow> nat option" where
  "findIndex P [] = None"
| "findIndex P (x # xs) = (if P x then Some 0 else map_option Suc (findIndex P xs))"

text \<open>
  \<open>Model.findOne({where, order})\<close>: among the rows that satisfy \<open>where\<close>, the one that
  sorts first; \<open>earlier y best\<close> says that \<open>y\<close> sorts strictly before \<open>best\<close>. Rows that
  tie keep their storage order.
\<close>

fun pickBy :: "('a \<Rightarrow> 'a \<Rightarrow> bool) \<Rightarrow> 'a list \<Rightarrow> 'a option" where
  "pickBy earlier [] = None"
| "pickBy earlier (x # xs) = Some (fold (\<lambda>y best. if earlier y best then y else best) xs x)"

definition findOneOrderBy :: "('a \<Rightarrow> bool) \<Rightarrow> ('a \<Rightarrow> 'a \<Rightarrow> bool) \<Rightarrow> 'a list \<Rightarrow> 'a option" where
  "findOneOrderBy wh earlier rows = pickBy earlier (filter wh rows)"

text \<open>The clause \<open>where: { eventId, status: "waiting" }\<close> on the waiting list.\<close>

definition activeWaiting :: "eventId \<Rightarrow> WaitingList \<Rightarrow> bool" where
  "activeWaiting eid w = (w_eventId w = eid \<and> w_status w = wl_waiting)"

text \<open>\<open>event.increment("availableTickets", {by})\<close> and \<open>event.decrement\<close>: an update of
  the stored row with that primary key.\<close>

definition increment :: "eventId \<Rightarrow> int \<Rightarrow> db \<Rightarrow> db" where
  "increment eid n s =
     (case events s eid of
        None \<Rightarrow> s
      | Some ev \<Rightarrow> s\<lparr>events := (events s)(eid \<mapsto> ev\<lparr>availableTickets := availableTickets ev + n\<rparr>)\<rparr>)"

definition decrement :: "eventId \<Rightarrow> int \<Rightarrow> db \<Rightarrow> db" where
  "decrement eid n s =
     (case events s eid of
        None \<Rightarrow> s
      | Some ev \<Rightarrow> s\<lparr>events := (events s)(eid \<mapsto> ev\<lparr>availableTickets := availableTickets ev - n\<rparr>)\<rparr>)"

text \<open>\<open>Booking.create\<close>: the bookings table has no unique index, the insert appends.\<close>

definition Booking_create :: "Booking \<Rightarrow> db \<Rightarrow> db" where
  "Booking_create b s = s\<lparr>bookings := bookings s @ [b]\<rparr>"

text \<open>\<open>WaitingList.create\<close>: the unique index on \<open>(eventId, position)\<close> rejects a row
  whose event already has a row, of any status, with that position.\<close>

definition WaitingList_create :: "WaitingList \<Rightarrow> db \<Rightarrow> error + db" where
  "WaitingList_create w s =
     (if list_ex (\<lambda>w'. w_eventId w' = w_eventId w \<and> w_position w' = w_position w) (waitingLists s)
      then Inl UniqueConstraintError
      else Inr (s\<lparr>waitingLists := waitingLists s @ [w]\<rparr>))"

section \<open>BookingService\<close>

text \<open>
  Each service call is one step from a database state to a result and a database state.
  The per-event lock serialises the calls on one event, and every query of a call is
  restricted to the rows of its event, so the calls are modelled as atomic. There is no
  transaction: a call that throws half-way keeps the writes it has made, which is why a
  failing call returns the state as well.
\<close>

text \<open>\<open>initializeEvent(name, totalTickets)\<close>; \<open>newId\<close> is the UUID the store generates
  for the row.\<close>

definition initializeEvent :: "eventId \<Rightarrow> string \<Rightarrow> int \<Rightarrow> db \<Rightarrow> (error + Event) \<times> db" where
  "initializeEvent newId nm tickets s =
     (if nm = [] then (Inl InvalidArgument, s)
      else if tickets < 1 then (Inl InvalidArgument, s)
      else if events s newId \<noteq> None then (Inl UniqueConstraintError, s)
      else
        let event = \<lparr>ev_name = nm, totalTickets = tickets, availableTickets = tickets\<rparr>
        in (Inr event, s\<lparr>events := (events s)(newId \<mapsto> event)\<rparr>))"

text \<open>\<open>_getNextWaitingPosition(eventId)\<close>: the waiting row of the event with the greatest
  position (\<open>order: [["position", "DESC"]]\<close>), plus one; 1 when the event has no waiting row.\<close>

definition getNextWaitingPosition :: "eventId \<Rightarrow> db \<Rightarrow> int" where
  "getNextWaitingPosition eid s =
     (case findOneOrderBy (activeWaiting eid) (\<lambda>y best. w_position best < w_position y)
             (waitingLists s) of
        None \<Rightarrow> 1
      | Some lastWaiting \<Rightarrow> w_position lastWaiting + 1)"

text \<open>\<open>bookTicket(eventId, userId)\<close>.\<close>

definition bookTicket :: "eventId \<Rightarrow> userId \<Rightarrow> db \<Rightarrow> (error + Booking) \<times> db" where
  "bookTicket eid uid s =
     (if eid = [] \<or> uid = [] then (Inl InvalidArgument, s)
      else
        let existingBooking = List.find (\<lambda>b. b_eventId b = eid \<and> b_userId b = uid) (bookings s)
        in if (case existingBooking of None \<Rightarrow> False | Some b \<Rightarrow> b_status b \<noteq> cancelled)
           then (Inl DuplicateBooking, s)
           else
             case events s eid of
               None \<Rightarrow> (Inl EventNotFound, s)
             | Some event \<Rightarrow>
                 if availableTickets event > 0 then
                   let s1 = decrement eid 1 s;
                       booking = \<lparr>b_eventId = eid, b_userId = uid, b_status = confirmed,
                                  b_position = None\<rparr>
                   in (Inr booking, Booking_create booking s1)
                 else
                   let nextPosition = getNextWaitingPosition eid s;
                       booking = \<lparr>b_eventId = eid, b_userId = uid, b_status = waiting,
                                  b_position = Some nextPosition\<rparr>;
                       s1 = Booking_create booking s
                   in case WaitingList_create
                             \<lparr>w_eventId = eid, w_userId = uid, w_position = nextPosition,
                              w_status = wl_waiting\<rparr> s1 of
                        Inl err \<Rightarrow> (Inl err, s1)
                      | Inr s2 \<Rightarrow> (Inr booking, s2))"

text \<open>\<open>_assignWaitingUserToTicket(eventId, userId)\<close>: every waiting-list row of the pair
  becomes \<open>assigned\<close>; the first booking of the pair with status \<open>waiting\<close>, when there is
  one, becomes \<open>confirmed\<close> and is returned, otherwise \<open>null\<close> is.\<close>

definition assignWaitingUserToTicket :: "eventId \<Rightarrow> userId \<Rightarrow> db \<Rightarrow> Booking option \<times> db" where
  "assignWaitingUserToTicket eid uid s =
     (let s1 = s\<lparr>waitingLists :=
                  map (\<lambda>w. if w_eventId w = eid \<and> w_userId w = uid
                           then w\<lparr>w_status := wl_assigned\<rparr> else w) (waitingLists s)\<rparr>
      in case findIndex (\<lambda>b. b_eventId b = eid \<and> b_userId b = uid \<and> b_status b = waiting)
                (bookings s1) of
           None \<Rightarrow> (None, s1)
         | Some j \<Rightarrow>
             let booking = (bookings s1 ! j)\<lparr>b_status := confirmed\<rparr>
             in (Some booking, s1\<lparr>bookings := (bookings s1)[j := booking]\<rparr>))"

text \<open>\<open>cancelBooking(eventId, userId)\<close>.\<close>

definition cancelBooking :: "eventId \<Rightarrow> userId \<Rightarrow> db \<Rightarrow> (error + CancelResult) \<times> db" where
  "cancelBooking eid uid s =
     (if eid = [] \<or> uid = [] then (Inl InvalidArgument, s)
      else
        case findIndex (\<lambda>b. b_eventId b = eid \<and> b_userId b = uid \<and> b_status b = confirmed)
               (bookings s) of
          None \<Rightarrow> (Inl BookingNotFound, s)
        | Some i \<Rightarrow>
            let booking = (bookings s ! i)\<lparr>b_status := cancelled\<rparr>;
                s1 = s\<lparr>bookings := (bookings s)[i := booking]\<rparr>
            in case events s1 eid of
                 None \<Rightarrow> (Inl TypeError, s1)
               | Some event \<Rightarrow>
                   let s2 = increment eid 1 s1
                   in case findOneOrderBy (activeWaiting eid)
                             (\<lambda>y best. w_position y < w_position best) (waitingLists s2) of
                        None \<Rightarrow>
                          (Inr \<lparr>cancelledBooking = booking, assignedUser = None\<rparr>, s2)
                      | Some nextWaiting \<Rightarrow>
                          (case assignWaitingUserToTicket eid (w_userId nextWaiting) s2 of
                             (assigned, s3) \<Rightarrow>
                               let s4 = decrement eid 1 s3
                               in (Inr \<lparr>cancelledBooking = booking, assignedUser = assigned\<rparr>,
                                   s4)))"

text \<open>\<open>getEventStatus(eventId)\<close>: three reads and no write.
  \<open>countWaiting\<close> is \<open>WaitingList.count({where: {eventId, status: "waiting"}})\<close> and
  \<open>countConfirmed\<close> is \<open>Booking.count({where: {eventId, status: "confirmed"}})\<close>. The
  wall-clock \<open>timestamp\<close> of the result is left out.\<close>

definition countWaiting :: "eventId \<Rightarrow> db \<Rightarrow> nat" where
  "countWaiting eid s = length (filter (activeWaiting eid) (waitingLists s))"

definition countConfirmed :: "eventId \<Rightarrow> db \<Rightarrow> nat" where
  "countConfirmed eid s =
     length (filter (\<lambda>b. b_eventId b = eid \<and> b_status b = confirmed) (bookings s))"

definition getEventStatus :: "eventId \<Rightarrow> db \<Rightarrow> (error + EventStatus) \<times> db" where
  "getEventStatus eid s =
     (if eid = [] then (Inl InvalidArgument, s)
      else
        case events s eid of
          None \<Rightarrow> (Inl EventNotFound, s)
        | Some event \<Rightarrow>
            let waitingCount = countWaiting eid s;
                confirmedCount = countConfirmed eid s
            in (Inr \<lparr>st_eventId = eid, st_eventName = ev_name event,
                     st_totalTickets = totalTickets event,
                     st_availableTickets = availableTickets event,
                     bookedTickets = confirmedCount,
                     waitingListCount = waitingCount\<rparr>, s))"

section \<open>Executions\<close>

text \<open>A request to the service, and the state it leaves behind whether it returns or
  throws. The reachable states are those that a sequence of requests produces from the
  empty database.\<close>

datatype request =
  InitializeEvent eventId string int
  | BookTicket eventId userId
  | CancelBooking eventId userId
  | GetEventStatus eventId

fun serve :: "request \<Rightarrow> db \<Rightarrow> db" where
  "serve (InitializeEvent newId nm tickets) s = snd (initializeEvent newId nm tickets s)"
| "serve (BookTicket eid uid) s = snd (bookTicket eid uid s)"
| "serve (CancelBooking eid uid) s = snd (cancelBooking eid uid s)"
| "serve (GetEventStatus eid) s = snd (getEventStatus eid s)"

definition run :: "request list \<Rightarrow> db" where
  "run rs = foldl (\<lambda>s r. serve r s) emptyDb rs"


text \<open>The states the results below are evaluated on.

  \<open>rebooked\<close>: an event with two tickets; u1 books, cancels and books again. The
  bookings table holds a cancelled row of u1 followed by a confirmed one.

  \<open>drained\<close>: an event with one ticket; u1 books, u2 queues at position 1, u1 cancels and
  u2 is promoted. The waiting list holds one row, assigned, at position 1.

  \<open>soldOut\<close>: an event with two tickets, both booked (scenario 1 of the specification
  before its third call); \<open>opened\<close>: the same event before any booking; \<open>queued\<close>: the
  same event with u3 and u4 waiting at positions 1 and 2.

  \<open>orphaned\<close>: \<open>drained\<close> after the call \<open>bookTicket(e1, u3)\<close>.

  \<open>stray\<close>: a database written by hand, not by the service: a waiting-list row of u2
  is waiting and u2 has no booking.\<close>

definition rebooked :: db where
  "rebooked = run [InitializeEvent ''e1'' ''Concert'' 2, BookTicket ''e1'' ''u1'',
                   CancelBooking ''e1'' ''u1'', BookTicket ''e1'' ''u1'']"

definition drained :: db where
  "drained = run [InitializeEvent ''e1'' ''Concert'' 1, BookTicket ''e1'' ''u1'',
                  BookTicket ''e1'' ''u2'', CancelBooking ''e1'' ''u1'']"



definition queued :: db where
  "queued = run [InitializeEvent ''e1'' ''Concert'' 2, BookTicket ''e1'' ''u1'',
                 BookTicket ''e1'' ''u2'', BookTicket ''e1'' ''u3'', BookTicket ''e1'' ''u4'']"


definition stray :: db where
  "stray = \<lparr>events = [''e1'' \<mapsto> \<lparr>ev_name = ''Concert'', totalTickets = 1, availableTickets = 0\<rparr>],
            bookings = [\<lparr>b_eventId = ''e1'', b_userId = ''u1'', b_status = confirmed,
                         b_position = None\<rparr>],
            waitingLists = [\<lparr>w_eventId = ''e1'', w_userId = ''u2'', w_position = 1,
                             w_status = wl_waiting\<rparr>]\<rparr>"

section \<open>Invariants of the reachable states\<close>



section \<open>Results evaluated on executions\<close>

text \<open>
  Claim C1 (at most one booking of a pair is confirmed or waiting in every reachable
  state) does not hold of the code. In \<open>rebooked\<close>, u1 holds a confirmed booking that
  sits behind a cancelled row of the same pair. The duplicate check of \<open>bookTicket\<close> looks
  at the first row of the pair, which is the cancelled one, so a further
  \<open>bookTicket(e1, u1)\<close> is served and u1 ends up with two confirmed bookings for e1.
\<close>

theorem rebooked_book_again_two_confirmed:
  "filter (\<lambda>b. b_eventId b = ''e1'' \<and> b_userId b = ''u1'' \<and> b_status b \<noteq> cancelled)
     (bookings (serve (BookTicket ''e1'' ''u1'') rebooked)) =
   [\<lparr>b_eventId = ''e1'', b_userId = ''u1'', b_status = confirmed, b_position = None\<rparr>,
    \<lparr>b_eventId = ''e1'', b_userId = ''u1'', b_status = confirmed, b_position = None\<rparr>]"
  by code_simp

text \<open>
  Claim C7 (\<open>bookTicket\<close> fails with \<open>DuplicateBooking\<close> exactly when the pair has a
  non-cancelled booking) does not hold of the code. In \<open>rebooked\<close> the pair (e1, u1) has a
  confirmed booking, and \<open>bookTicket(e1, u1)\<close> returns a new confirmed booking and takes
  another ticket instead of failing.
\<close>

theorem rebooked_duplicate_not_rejected:
  "list_ex (\<lambda>b. b_eventId b = ''e1'' \<and> b_userId b = ''u1'' \<and> b_status b = confirmed)
     (bookings rebooked) \<and>
   fst (bookTicket ''e1'' ''u1'' rebooked) =
     Inr \<lparr>b_eventId = ''e1'', b_userId = ''u1'', b_status = confirmed, b_position = None\<rparr> \<and>
   map_option availableTickets (events rebooked ''e1'') = Some 1 \<and>
   map_option availableTickets (events (snd (bookTicket ''e1'' ''u1'' rebooked)) ''e1'') = Some 0"
  by code_simp

text \<open>
  Claim C4 (the positions handed out for an event increase strictly over its whole history;
  the position of a promoted entry is never handed out again) does not hold of the code.
  In \<open>drained\<close> position 1 belongs to the promoted entry of u2, no entry is waiting, and
  \<open>_getNextWaitingPosition\<close> answers 1 again. \<open>bookTicket(e1, u3)\<close> writes a waiting
  booking with position 1, then the insert of the queue entry violates the unique index
  on (eventId, position): the call throws, the booking row stays, the queue is unchanged.
\<close>

theorem drained_position_one_handed_out_again:
  "waitingLists drained =
     [\<lparr>w_eventId = ''e1'', w_userId = ''u2'', w_position = 1, w_status = wl_assigned\<rparr>] \<and>
   getNextWaitingPosition ''e1'' drained = 1 \<and>
   fst (bookTicket ''e1'' ''u3'' drained) = Inl UniqueConstraintError \<and>
   bookings (snd (bookTicket ''e1'' ''u3'' drained)) =
     bookings drained @
     [\<lparr>b_eventId = ''e1'', b_userId = ''u3'', b_status = waiting, b_position = Some 1\<rparr>] \<and>
   waitingLists (snd (bookTicket ''e1'' ''u3'' drained)) = waitingLists drained"
  by code_simp

section \<open>Facts about the storage operations\<close>

lemma findIndex_Some:
  "findIndex P xs = Some i \<Longrightarrow> i < length xs \<and> P (xs ! i) \<and> (\<forall>j<i. \<not> P (xs ! j))"
proof (induction xs arbitrary: i)
  case Nil
  then show ?case by simp
next
  case (Cons x xs)
  show ?case
  proof (cases "P x")
    case True
    with Cons.prems show ?thesis by simp
  next
    case False
    with Cons.prems obtain k where k: "findIndex P xs = Some k" "i = Suc k"
      by auto
    from Cons.IH [OF k(1)] False k(2) show ?thesis
      by (auto simp: less_Suc_eq_0_disj)
  qed
qed

lemma findIndex_None_iff: "findIndex P xs = None \<longleftrightarrow> \<not> list_ex P xs"
  by (induction xs) auto

lemma find_None_iff_list_ex: "List.find P xs = None \<longleftrightarrow> \<not> list_ex P xs"
  by (induction xs) auto


lemma fold_pick_in:
  "fold (\<lambda>y best. if earlier y best then y else best) xs b \<in> insert b (set xs)"
  by (induction xs arbitrary: b) auto

lemma fold_min_le:
  fixes f :: "'a \<Rightarrow> int"
  shows "f (fold (\<lambda>y best. if f y < f best then y else best) xs b) \<le> f b \<and>
         (\<forall>x\<in>set xs. f (fold (\<lambda>y best. if f y < f best then y else best) xs b) \<le> f x)"
proof (induction xs arbitrary: b)
  case Nil
  show ?case by simp
next
  case (Cons a xs)
  show ?case using Cons.IH [of a] Cons.IH [of b] by (auto intro: order_trans)
qed


lemma pickBy_None_iff: "pickBy earlier xs = None \<longleftrightarrow> xs = []"
  by (cases xs) auto

lemma pickBy_in: "pickBy earlier xs = Some y \<Longrightarrow> y \<in> set xs"
  using fold_pick_in [of earlier] by (cases xs) auto

lemma pickBy_min:
  fixes f :: "'a \<Rightarrow> int"
  assumes "pickBy (\<lambda>y best. f y < f best) xs = Some y"
  shows "\<forall>x\<in>set xs. f y \<le> f x"
  using assms fold_min_le [of f] by (cases xs) auto





lemma increment_simps:
  "bookings (increment eid n s) = bookings s"
  "waitingLists (increment eid n s) = waitingLists s"
  "events s eid = Some ev \<Longrightarrow>
     events (increment eid n s) = (events s)(eid \<mapsto> ev\<lparr>availableTickets := availableTickets ev + n\<rparr>)"
  "events s eid = None \<Longrightarrow> increment eid n s = s"
  by (simp_all add: increment_def split: option.split)

lemma decrement_simps:
  "bookings (decrement eid n s) = bookings s"
  "waitingLists (decrement eid n s) = waitingLists s"
  "events s eid = Some ev \<Longrightarrow>
     events (decrement eid n s) = (events s)(eid \<mapsto> ev\<lparr>availableTickets := availableTickets ev - n\<rparr>)"
  "events s eid = None \<Longrightarrow> decrement eid n s = s"
  by (simp_all add: decrement_def split: option.split)

lemma assign_events: "events (snd (assignWaitingUserToTicket eid uid s)) = events s"
  by (simp add: assignWaitingUserToTicket_def Let_def split: option.split)


lemma assign_None:
  assumes "\<not> list_ex (\<lambda>b. b_eventId b = eid \<and> b_userId b = uid \<and> b_status b = waiting) (bookings s)"
  shows "assignWaitingUserToTicket eid uid s =
           (None, s\<lparr>waitingLists :=
                      map (\<lambda>w. if w_eventId w = eid \<and> w_userId w = uid
                               then w\<lparr>w_status := wl_assigned\<rparr> else w) (waitingLists s)\<rparr>)"
  using assms
  by (simp add: assignWaitingUserToTicket_def Let_def findIndex_None_iff [symmetric])

lemma assign_cases:
  "(fst (assignWaitingUserToTicket eid uid s) = None \<and>
      bookings (snd (assignWaitingUserToTicket eid uid s)) = bookings s \<and>
      \<not> list_ex (\<lambda>b. b_eventId b = eid \<and> b_userId b = uid \<and> b_status b = waiting) (bookings s)) \<or>
   (\<exists>j. j < length (bookings s) \<and>
        b_eventId (bookings s ! j) = eid \<and> b_userId (bookings s ! j) = uid \<and>
        b_status (bookings s ! j) = waiting \<and>
        fst (assignWaitingUserToTicket eid uid s) = Some ((bookings s ! j)\<lparr>b_status := confirmed\<rparr>) \<and>
        bookings (snd (assignWaitingUserToTicket eid uid s)) =
          (bookings s)[j := (bookings s ! j)\<lparr>b_status := confirmed\<rparr>])"
proof (cases "findIndex (\<lambda>b. b_eventId b = eid \<and> b_userId b = uid \<and> b_status b = waiting) (bookings s)")
  case None
  then show ?thesis
    by (simp add: assignWaitingUserToTicket_def Let_def findIndex_None_iff [symmetric])
next
  case (Some j)
  from findIndex_Some [OF Some] have "j < length (bookings s) \<and>
        b_eventId (bookings s ! j) = eid \<and> b_userId (bookings s ! j) = uid \<and>
        b_status (bookings s ! j) = waiting" by simp
  moreover from Some have
    "fst (assignWaitingUserToTicket eid uid s) = Some ((bookings s ! j)\<lparr>b_status := confirmed\<rparr>)"
    "bookings (snd (assignWaitingUserToTicket eid uid s)) =
          (bookings s)[j := (bookings s ! j)\<lparr>b_status := confirmed\<rparr>]"
    by (simp_all add: assignWaitingUserToTicket_def Let_def)
  ultimately show ?thesis by blast
qed

section \<open>bookTicket\<close>




section \<open>cancelBooking\<close>

text \<open>The successful runs of cancelBooking, one equation per path.\<close>

lemma cancelBooking_found:
  assumes ids: "eid \<noteq> []" "uid \<noteq> []"
    and i: "findIndex (\<lambda>b. b_eventId b = eid \<and> b_userId b = uid \<and> b_status b = confirmed)
              (bookings s) = Some i"
    and ev: "events s eid = Some ev"
  shows "cancelBooking eid uid s =
    (let booking = (bookings s ! i)\<lparr>b_status := cancelled\<rparr>;
         s2 = increment eid 1 (s\<lparr>bookings := (bookings s)[i := booking]\<rparr>)
     in case findOneOrderBy (activeWaiting eid) (\<lambda>y best. w_position y < w_position best)
               (waitingLists s) of
          None \<Rightarrow> (Inr \<lparr>cancelledBooking = booking, assignedUser = None\<rparr>, s2)
        | Some nextWaiting \<Rightarrow>
            (Inr \<lparr>cancelledBooking = booking,
                  assignedUser = fst (assignWaitingUserToTicket eid (w_userId nextWaiting) s2)\<rparr>,
             decrement eid 1 (snd (assignWaitingUserToTicket eid (w_userId nextWaiting) s2))))"
  using ids i ev
  by (simp add: cancelBooking_def Let_def increment_simps split: option.split prod.split)

lemma findOne_active_None_iff:
  "findOneOrderBy (activeWaiting eid) earlier wl = None \<longleftrightarrow> \<not> list_ex (activeWaiting eid) wl"
  by (simp add: findOneOrderBy_def pickBy_None_iff filter_empty_conv list_ex_iff)

text \<open>
  Claim C3: a successful \<open>cancelBooking(eventId, requesterId)\<close> returns the pair of the
  cancelled booking and the assigned booking or null; a confirmed booking of the requester
  has become cancelled; when an assigned booking is returned the available tickets of the
  event are what they were before the call; when no entry of the event was waiting, null is
  returned and the available tickets have grown by exactly 1.
\<close>

theorem cancelBooking_success:
  assumes ok: "cancelBooking eid uid s = (Inr r, s')"
  shows "\<exists>i ev ev'.
           i < length (bookings s) \<and>
           b_eventId (bookings s ! i) = eid \<and> b_userId (bookings s ! i) = uid \<and>
           b_status (bookings s ! i) = confirmed \<and>
           b_status (bookings s' ! i) = cancelled \<and>
           cancelledBooking r = (bookings s ! i)\<lparr>b_status := cancelled\<rparr> \<and>
           events s eid = Some ev \<and> events s' eid = Some ev' \<and>
           (assignedUser r \<noteq> None \<longrightarrow> availableTickets ev' = availableTickets ev) \<and>
           (\<not> list_ex (activeWaiting eid) (waitingLists s) \<longrightarrow>
              assignedUser r = None \<and> availableTickets ev' = availableTickets ev + 1)"
proof -
  let ?P = "\<lambda>b. b_eventId b = eid \<and> b_userId b = uid \<and> b_status b = confirmed"
  from ok have ids: "eid \<noteq> []" "uid \<noteq> []"
    by (auto simp: cancelBooking_def split: if_splits)
  from ok ids obtain i where i: "findIndex ?P (bookings s) = Some i"
    by (cases "findIndex ?P (bookings s)") (auto simp: cancelBooking_def)
  from ok ids i obtain ev where ev: "events s eid = Some ev"
    by (cases "events s eid") (auto simp: cancelBooking_def Let_def)
  note fi = findIndex_Some [OF i]
  let ?b = "(bookings s ! i)\<lparr>b_status := cancelled\<rparr>"
  let ?s2 = "increment eid 1 (s\<lparr>bookings := (bookings s)[i := ?b]\<rparr>)"
  have ev2: "events ?s2 eid = Some (ev\<lparr>availableTickets := availableTickets ev + 1\<rparr>)"
    using ev by (simp add: increment_simps)
  have bk2: "bookings ?s2 = (bookings s)[i := ?b]"
    by (simp add: increment_simps)
  note eq = cancelBooking_found [OF ids i ev]
  show ?thesis
  proof (cases "findOneOrderBy (activeWaiting eid) (\<lambda>y best. w_position y < w_position best) (waitingLists s)")
    case None
    with ok eq have r: "r = \<lparr>cancelledBooking = ?b, assignedUser = None\<rparr>" and s': "s' = ?s2"
      by (simp_all add: Let_def)
    from fi ev ev2 bk2 show ?thesis
      unfolding r s' by (intro exI [of _ i] exI [of _ ev] exI) auto
  next
    case (Some nw)
    let ?a = "assignWaitingUserToTicket eid (w_userId nw) ?s2"
    from Some ok eq have r: "r = \<lparr>cancelledBooking = ?b, assignedUser = fst ?a\<rparr>"
      and s': "s' = decrement eid 1 (snd ?a)"
      by (simp_all add: Let_def)
    from Some have act: "list_ex (activeWaiting eid) (waitingLists s)"
      using findOne_active_None_iff [of eid "\<lambda>y best. w_position y < w_position best" "waitingLists s"]
      by simp
    have ev3: "events (snd ?a) eid = Some (ev\<lparr>availableTickets := availableTickets ev + 1\<rparr>)"
      using ev2 by (simp add: assign_events)
    have ev': "events s' eid = Some (ev\<lparr>availableTickets := availableTickets ev + 1 - 1\<rparr>)"
      unfolding s' using ev3 by (simp add: decrement_simps)
    have bs': "bookings s' = bookings (snd ?a)"
      unfolding s' by (simp add: decrement_simps)
    have "b_status (bookings (snd ?a) ! i) = cancelled"
      using assign_cases [of eid "w_userId nw" ?s2] fi unfolding bk2
      by (auto simp: nth_list_update)
    with fi ev ev' bs' act show ?thesis
      unfolding r by (intro exI [of _ i] exI [of _ ev] exI) auto
  qed
qed

text \<open>Scenario 2 of the specification, with a second requester waiting: u1 cancels
  and u3, the first in the queue, is promoted; no ticket becomes available.\<close>

theorem cancelBooking_success_witness:
  "fst (cancelBooking ''e1'' ''u1'' queued) =
     Inr \<lparr>cancelledBooking =
            \<lparr>b_eventId = ''e1'', b_userId = ''u1'', b_status = cancelled, b_position = None\<rparr>,
          assignedUser =
            Some \<lparr>b_eventId = ''e1'', b_userId = ''u3'', b_status = confirmed,
                  b_position = Some 1\<rparr>\<rparr> \<and>
   (\<exists>i ev ev'.
      i < length (bookings queued) \<and>
      b_eventId (bookings queued ! i) = ''e1'' \<and> b_userId (bookings queued ! i) = ''u1'' \<and>
      b_status (bookings queued ! i) = confirmed \<and>
      b_status (bookings (snd (cancelBooking ''e1'' ''u1'' queued)) ! i) = cancelled \<and>
      events queued ''e1'' = Some ev \<and>
      events (snd (cancelBooking ''e1'' ''u1'' queued)) ''e1'' = Some ev' \<and>
      availableTickets ev' = availableTickets ev)"
proof -
  let ?r = "\<lparr>cancelledBooking =
            \<lparr>b_eventId = ''e1'', b_userId = ''u1'', b_status = cancelled, b_position = None\<rparr>,
          assignedUser =
            Some \<lparr>b_eventId = ''e1'', b_userId = ''u3'', b_status = confirmed,
                  b_position = Some 1\<rparr>\<rparr>"
  have r: "fst (cancelBooking ''e1'' ''u1'' queued) = Inr ?r"
    by code_simp
  then have ok: "cancelBooking ''e1'' ''u1'' queued = (Inr ?r, snd (cancelBooking ''e1'' ''u1'' queued))"
    by (simp add: prod_eq_iff)
  from cancelBooking_success [OF ok] obtain i ev ev' where
    "i < length (bookings queued)"
    "b_eventId (bookings queued ! i) = ''e1''" "b_userId (bookings queued ! i) = ''u1''"
    "b_status (bookings queued ! i) = confirmed"
    "b_status (bookings (snd (cancelBooking ''e1'' ''u1'' queued)) ! i) = cancelled"
    "events queued ''e1'' = Some ev"
    "events (snd (cancelBooking ''e1'' ''u1'' queued)) ''e1'' = Some ev'"
    "availableTickets ev' = availableTickets ev"
    by auto
  then have "\<exists>i ev ev'.
      i < length (bookings queued) \<and>
      b_eventId (bookings queued ! i) = ''e1'' \<and> b_userId (bookings queued ! i) = ''u1'' \<and>
      b_status (bookings queued ! i) = confirmed \<and>
      b_status (bookings (snd (cancelBooking ''e1'' ''u1'' queued)) ! i) = cancelled \<and>
      events queued ''e1'' = Some ev \<and>
      events (snd (cancelBooking ''e1'' ''u1'' queued)) ''e1'' = Some ev' \<and>
      availableTickets ev' = availableTickets ev"
    by blast
  with r show ?thesis by (rule conjI)
qed

text \<open>
  Claim C10: when \<open>cancelBooking\<close> finds a confirmed booking to cancel and an earliest
  waiting entry whose requester has no booking with status waiting, it still marks the
  entry assigned and still takes back the ticket it had freed (the events table, and with
  it \<open>availableTickets\<close>, is what it was before the call), and it returns null for the
  assigned booking: the only booking that changes is the cancelled one.
\<close>

theorem cancelBooking_entry_without_waiting_booking:
  assumes ids: "eid \<noteq> []" "uid \<noteq> []"
    and i: "findIndex (\<lambda>b. b_eventId b = eid \<and> b_userId b = uid \<and> b_status b = confirmed)
              (bookings s) = Some i"
    and ev: "events s eid = Some ev"
    and nw: "findOneOrderBy (activeWaiting eid) (\<lambda>y best. w_position y < w_position best)
               (waitingLists s) = Some nextWaiting"
    and nob: "\<not> list_ex (\<lambda>b. b_eventId b = eid \<and> b_userId b = w_userId nextWaiting \<and>
                             b_status b = waiting) (bookings s)"
  shows "cancelBooking eid uid s =
           (Inr \<lparr>cancelledBooking = (bookings s ! i)\<lparr>b_status := cancelled\<rparr>,
                 assignedUser = None\<rparr>,
            s\<lparr>bookings := (bookings s)[i := (bookings s ! i)\<lparr>b_status := cancelled\<rparr>],
              waitingLists :=
                map (\<lambda>w. if w_eventId w = eid \<and> w_userId w = w_userId nextWaiting
                         then w\<lparr>w_status := wl_assigned\<rparr> else w) (waitingLists s)\<rparr>) \<and>
         nextWaiting \<in> set (waitingLists s) \<and> activeWaiting eid nextWaiting \<and>
         nextWaiting\<lparr>w_status := wl_assigned\<rparr> \<in> set (waitingLists (snd (cancelBooking eid uid s)))"
proof -
  let ?Q = "\<lambda>b. b_eventId b = eid \<and> b_userId b = w_userId nextWaiting \<and> b_status b = waiting"
  let ?b = "(bookings s ! i)\<lparr>b_status := cancelled\<rparr>"
  let ?s2 = "increment eid 1 (s\<lparr>bookings := (bookings s)[i := ?b]\<rparr>)"
  let ?f = "\<lambda>w. if w_eventId w = eid \<and> w_userId w = w_userId nextWaiting
                 then w\<lparr>w_status := wl_assigned\<rparr> else w"
  have "\<not> ?Q x" if "x \<in> set ((bookings s)[i := ?b])" for x
  proof (cases "x = ?b")
    case True
    then show ?thesis by simp
  next
    case False
    with that have "x \<in> set (bookings s)"
      using set_update_subset_insert [of "bookings s" i ?b] by auto
    with nob show ?thesis by (auto simp: list_ex_iff)
  qed
  then have nob2: "\<not> list_ex ?Q (bookings ?s2)"
    by (auto simp: increment_simps list_ex_iff)
  have ev2: "events ?s2 = (events s)(eid \<mapsto> ev\<lparr>availableTickets := availableTickets ev + 1\<rparr>)"
    using ev by (simp add: increment_simps)
  have s2: "?s2 = s\<lparr>bookings := (bookings s)[i := ?b], events := (events s)(eid \<mapsto> ev\<lparr>availableTickets := availableTickets ev + 1\<rparr>)\<rparr>"
    using ev by (simp add: increment_def)
  have restore: "(events s)(eid \<mapsto> ev) = events s"
    using ev by (rule map_upd_triv)
  have main: "cancelBooking eid uid s =
           (Inr \<lparr>cancelledBooking = ?b, assignedUser = None\<rparr>,
            s\<lparr>bookings := (bookings s)[i := ?b], waitingLists := map ?f (waitingLists s)\<rparr>)"
    unfolding cancelBooking_found [OF ids i ev] Let_def nw option.case
      assign_None [OF nob2]
    by (simp add: s2 decrement_def restore)
  from nw have pk: "pickBy (\<lambda>y best. w_position y < w_position best)
                      (filter (activeWaiting eid) (waitingLists s)) = Some nextWaiting"
    by (simp add: findOneOrderBy_def)
  from pickBy_in [OF pk] have mem: "nextWaiting \<in> set (waitingLists s)" "activeWaiting eid nextWaiting"
    by simp_all
  from mem have "?f nextWaiting \<in> ?f ` set (waitingLists s)"
    by (intro imageI)
  with mem have "nextWaiting\<lparr>w_status := wl_assigned\<rparr> \<in> set (map ?f (waitingLists s))"
    by (simp add: activeWaiting_def)
  with main mem show ?thesis by simp
qed

text \<open>In \<open>stray\<close> the entry of u2 is consumed and no booking is confirmed.\<close>

theorem cancelBooking_entry_without_waiting_booking_witness:
  "cancelBooking ''e1'' ''u1'' stray =
     (Inr \<lparr>cancelledBooking =
             \<lparr>b_eventId = ''e1'', b_userId = ''u1'', b_status = cancelled, b_position = None\<rparr>,
           assignedUser = None\<rparr>,
      stray\<lparr>bookings :=
               [\<lparr>b_eventId = ''e1'', b_userId = ''u1'', b_status = cancelled,
                 b_position = None\<rparr>],
            waitingLists :=
               [\<lparr>w_eventId = ''e1'', w_userId = ''u2'', w_position = 1,
                 w_status = wl_assigned\<rparr>]\<rparr>)"
proof -
  have i: "findIndex (\<lambda>b. b_eventId b = ''e1'' \<and> b_userId b = ''u1'' \<and> b_status b = confirmed)
             (bookings stray) = Some 0"
    by code_simp
  have ev: "events stray ''e1'' =
              Some \<lparr>ev_name = ''Concert'', totalTickets = 1, availableTickets = 0\<rparr>"
    by code_simp
  have nw: "findOneOrderBy (activeWaiting ''e1'') (\<lambda>y best. w_position y < w_position best)
              (waitingLists stray) =
            Some \<lparr>w_eventId = ''e1'', w_userId = ''u2'', w_position = 1, w_status = wl_waiting\<rparr>"
    by code_simp
  have nob: "\<not> list_ex (\<lambda>b. b_eventId b = ''e1'' \<and>
                b_userId b = w_userId \<lparr>w_eventId = ''e1'', w_userId = ''u2'', w_position = 1,
                                       w_status = wl_waiting\<rparr> \<and>
                b_status b = waiting) (bookings stray)"
    by code_simp
  have b: "bookings stray = [\<lparr>b_eventId = ''e1'', b_userId = ''u1'', b_status = confirmed,
                         b_position = None\<rparr>]"
    and w: "waitingLists stray = [\<lparr>w_eventId = ''e1'', w_userId = ''u2'', w_position = 1,
                             w_status = wl_waiting\<rparr>]"
    by (simp_all add: stray_def)
  from cancelBooking_entry_without_waiting_booking [OF _ _ i ev nw nob]
  show ?thesis by (simp add: b w)
qed




section \<open>getEventStatus\<close>




section \<open>What a call leaves behind\<close>




section \<open>Ticket bounds in the reachable states\<close>















section \<open>First in, first out\<close>















end
